theory Spec2Isabelle
  imports Complex_Main
begin

section \<open>The world outside \<open>create_video.py\<close>\<close>

text \<open>
  \<open>make_video\<close> talks to three things it does not implement: the file system
  (\<open>os.path.exists\<close>), the path functions of \<open>os.path\<close>, and the media library
  (\<open>AudioFileClip\<close>, \<open>ImageClip\<close>, \<open>with_audio\<close>, \<open>write_videofile\<close>, \<open>close\<close>).
  The path functions are pure and are embedded below. The file system and the media
  library are a parameter of the model, the record \<open>world\<close>: it says which paths exist
  and, for each library call, whether the call raises or what it returns. Every
  theorem is about every world unless it says otherwise.
\<close>

text \<open>
  Exceptions caught by \<open>except Exception\<close>: the two the source raises itself, with
  their messages, and the ones the media library raises.
\<close>

datatype exn =
    FileNotFoundError string
  | ValueError string
  | LibraryError string

text \<open>
  The objects the source holds in \<open>audio_clip\<close>, \<open>image_clip\<close> and \<open>final_clip\<close>.
  \<open>AudioFileClip(...)\<close> and \<open>ImageClip(...)\<close> are constructor calls, so each gives an
  object of its own. \<open>with_audio\<close> is a method: the object it returns is chosen by the
  library, a new one (\<open>Combined_handle\<close>) or one that exists already (line 76 of the
  source: "final_clip might be the same as image_clip if set_audio returns self").
\<close>

datatype handle = Audio_handle | Image_handle | Combined_handle

text \<open>The keyword arguments of \<open>write_videofile\<close>, lines 54 to 61.\<close>

record write_args =
  filename :: string
  fps_arg :: int
  codec :: string
  audio_codec :: string
  logger :: string
  temp_audiofile :: string

text \<open>
  Durations are Python floats read from the library; they are modelled as real numbers
  of seconds, and \<open>None\<close> is the \<open>duration\<close> attribute being \<open>None\<close>.
\<close>

record world =
  path_exists :: "string \<Rightarrow> bool"
  open_audio :: "string \<Rightarrow> exn + real option"
  open_image :: "string \<Rightarrow> real \<Rightarrow> exn option"
  attach_audio :: "handle \<Rightarrow> handle \<Rightarrow> exn + handle"
  write_video :: "handle \<Rightarrow> write_args \<Rightarrow> exn option"

text \<open>
  \<open>path_exists\<close> is \<open>os.path.exists\<close>. \<open>open_audio p\<close> is \<open>AudioFileClip(p)\<close>: \<open>Inl e\<close>
  when the constructor raises, \<open>Inr d\<close> when it returns a clip whose \<open>duration\<close>
  attribute is \<open>d\<close>. \<open>open_image p d\<close> is \<open>ImageClip(p, duration=d)\<close>: \<open>Some e\<close> when it
  raises. \<open>attach_audio c a\<close> is \<open>c.with_audio(a)\<close>. \<open>write_video c args\<close> is
  \<open>c.write_videofile(...)\<close>: \<open>Some e\<close> when it raises.

  The library's release operation \<open>close()\<close> is a call like the others: it returns or
  it raises. What it does is the parameter \<open>closer\<close> of the \<open>finally\<close> block below.
\<close>

type_synonym closer = "handle \<Rightarrow> exn option"

section \<open>What an execution does: the trace\<close>

datatype message =
    Starting
  | Image_line string
  | Audio_line string
  | Output_line string
  | Fps_line int
  | Loading_audio
  | Audio_duration real
  | Processing_image
  | Combining
  | Temp_location string
  | Writing string
  | Created string
  | Error_creating exn

datatype call =
    AudioFileClip_new string
  | Get_duration handle
  | ImageClip_new string real
  | With_audio handle handle
  | Write_videofile handle write_args
  | Close handle

datatype outcome =
    Done
  | Gave_handle handle
  | Gave_duration "real option"
  | Raised exn

text \<open>
  One event for each \<open>print\<close>, each \<open>raise\<close> statement of the source, the
  \<open>traceback.print_exc()\<close> of the handler, and each use of the media library with its
  arguments and what came back.
\<close>

datatype event =
    Print message
  | Raise exn
  | Print_exc exn
  | Lib call outcome

section \<open>\<open>os.path.dirname\<close> and \<open>os.path.join\<close> (posixpath)\<close>

definition sep :: char where
  "sep = CHR ''/''"

text \<open>\<open>str.rfind\<close> for one character: the last index where it occurs, or \<open>-1\<close>.\<close>

definition rfind :: "string \<Rightarrow> char \<Rightarrow> int" where
  "rfind p c =
     (if c \<in> set p
      then int (length p) - 1 - int (length (takeWhile (\<lambda>x. x \<noteq> c) (rev p)))
      else - 1)"

definition rstrip :: "string \<Rightarrow> char \<Rightarrow> string" where
  "rstrip s c = rev (dropWhile (\<lambda>x. x = c) (rev s))"

definition startswith :: "string \<Rightarrow> char \<Rightarrow> bool" where
  "startswith s c = (case s of [] \<Rightarrow> False | x # _ \<Rightarrow> x = c)"

definition endswith :: "string \<Rightarrow> char \<Rightarrow> bool" where
  "endswith s c = (case rev s of [] \<Rightarrow> False | x # _ \<Rightarrow> x = c)"

text \<open>
  \<^verbatim>\<open>
  def dirname(p):
      i = p.rfind(sep) + 1
      head = p[:i]
      if head and head != sep*len(head):
          head = head.rstrip(sep)
      return head
  \<close>
\<close>

definition dirname :: "string \<Rightarrow> string" where
  "dirname p =
     (let i = rfind p sep + 1;
          head = take (nat i) p
      in if head \<noteq> [] \<and> head \<noteq> replicate (length head) sep
         then rstrip head sep
         else head)"

text \<open>
  \<open>os.path.join\<close> with two arguments, as line 49 calls it:
  \<^verbatim>\<open>
  def join(a, b):
      path = a
      if b.startswith(sep):
          path = b
      elif not path or path.endswith(sep):
          path += b
      else:
          path += sep + b
      return path
  \<close>
\<close>

definition join :: "string \<Rightarrow> string \<Rightarrow> string" where
  "join a b =
     (if startswith b sep then b
      else if a = [] \<or> endswith a sep then a @ b
      else a @ sep # b)"

section \<open>\<open>make_video\<close>\<close>

text \<open>The three local variables set to \<open>None\<close> on lines 12 to 14.\<close>

record vars =
  audio_clip :: "handle option"
  image_clip :: "handle option"
  final_clip :: "handle option"

definition invalid_duration_msg :: string where
  "invalid_duration_msg =
     ''Audio duration is invalid or zero. Ensure the input audio file has a valid audio track and is not silent/empty.''"

definition temp_name :: string where
  "temp_name = ''temp_processing_audio.mp4''"

text \<open>
  The body of the \<open>try\<close>, lines 16 to 63. It returns how the body ended (\<open>Inl e\<close>:
  it raised \<open>e\<close>), the local variables and the trace at that point.
\<close>

definition try_body ::
  "world \<Rightarrow> string \<Rightarrow> string \<Rightarrow> string \<Rightarrow> int \<Rightarrow> (exn + unit) \<times> vars \<times> event list" where
  "try_body w image_path audio_path output_path fps =
    (let v0 = \<lparr>audio_clip = None, image_clip = None, final_clip = None\<rparr>;
         t0 = [Print Starting, Print (Image_line image_path), Print (Audio_line audio_path),
               Print (Output_line output_path), Print (Fps_line fps)]
     in
     if \<not> path_exists w image_path then
       (let e = FileNotFoundError (''Image file not found: '' @ image_path)
        in (Inl e, v0, t0 @ [Raise e]))
     else if \<not> path_exists w audio_path then
       (let e = FileNotFoundError (''Audio file not found: '' @ audio_path)
        in (Inl e, v0, t0 @ [Raise e]))
     else
       (let t1 = t0 @ [Print Loading_audio] in
        case open_audio w audio_path of
          Inl e \<Rightarrow> (Inl e, v0, t1 @ [Lib (AudioFileClip_new audio_path) (Raised e)])
        | Inr duration \<Rightarrow>
           (let v1 = v0\<lparr>audio_clip := Some Audio_handle\<rparr>;
                t2 = t1 @ [Lib (AudioFileClip_new audio_path) (Gave_handle Audio_handle),
                           Lib (Get_duration Audio_handle) (Gave_duration duration)]
            in
            if duration = None \<or> the duration \<le> 0 then
              (let e = ValueError invalid_duration_msg
               in (Inl e, v1, t2 @ [Raise e]))
            else
              (let d = the duration;
                   t3 = t2 @ [Print (Audio_duration d), Print Processing_image] in
               case open_image w image_path d of
                 Some e \<Rightarrow> (Inl e, v1, t3 @ [Lib (ImageClip_new image_path d) (Raised e)])
               | None \<Rightarrow>
                  (let v2 = v1\<lparr>image_clip := Some Image_handle\<rparr>;
                       t4 = t3 @ [Lib (ImageClip_new image_path d) (Gave_handle Image_handle),
                                  Print Combining] in
                   case attach_audio w Image_handle Audio_handle of
                     Inl e \<Rightarrow>
                       (Inl e, v2, t4 @ [Lib (With_audio Image_handle Audio_handle) (Raised e)])
                   | Inr h \<Rightarrow>
                      (let v3 = v2\<lparr>final_clip := Some h\<rparr>;
                           output_dir = dirname output_path;
                           temp_audiofile_path = join output_dir temp_name;
                           args = \<lparr>filename = output_path, fps_arg = fps,
                                   codec = ''libx264'', audio_codec = ''aac'',
                                   logger = ''bar'', temp_audiofile = temp_audiofile_path\<rparr>;
                           t5 = t4 @ [Lib (With_audio Image_handle Audio_handle) (Gave_handle h),
                                      Print (Temp_location temp_audiofile_path),
                                      Print (Writing output_path)] in
                       case write_video w h args of
                         Some e \<Rightarrow> (Inl e, v3, t5 @ [Lib (Write_videofile h args) (Raised e)])
                       | None \<Rightarrow>
                           (Inr (), v3, t5 @ [Lib (Write_videofile h args) Done,
                                              Print (Created output_path)])))))))"

text \<open>
  The \<open>finally\<close> block, lines 70 to 77. Each variable that holds a clip is closed, in
  the order audio, image, final; a clip object is true in a condition, \<open>None\<close> is
  false. \<open>close_if_set cl x\<close> is one \<open>if x: x.close()\<close>: \<open>cl h = Some e\<close> says that
  \<open>close()\<close> on \<open>h\<close> raises \<open>e\<close>. The three calls are not guarded, so the first that
  raises ends the block: the later ones are not made, and the block raises.
\<close>

definition close_if_set :: "closer \<Rightarrow> handle option \<Rightarrow> exn option \<times> event list" where
  "close_if_set cl x =
     (case x of
        None \<Rightarrow> (None, [])
      | Some h \<Rightarrow>
         (case cl h of
            None \<Rightarrow> (None, [Lib (Close h) Done])
          | Some e \<Rightarrow> (Some e, [Lib (Close h) (Raised e)])))"

definition finally_block :: "closer \<Rightarrow> vars \<Rightarrow> exn option \<times> event list" where
  "finally_block cl v =
     (case close_if_set cl (audio_clip v) of
        (Some e, t1) \<Rightarrow> (Some e, t1)
      | (None, t1) \<Rightarrow>
         (case close_if_set cl (image_clip v) of
            (Some e, t2) \<Rightarrow> (Some e, t1 @ t2)
          | (None, t2) \<Rightarrow>
             (case close_if_set cl (final_clip v) of
                (r, t3) \<Rightarrow> (r, t1 @ t2 @ t3))))"

text \<open>
  The whole function. The handler, lines 65 to 69, prints the error and the traceback
  and raises the exception again; then the \<open>finally\<close> block runs, and an exception it
  raises replaces the one in flight. The result is what the caller sees (\<open>Inl e\<close>:
  the call raised \<open>e\<close>) and the whole trace.
\<close>

definition make_video_closing ::
  "closer \<Rightarrow> world \<Rightarrow> string \<Rightarrow> string \<Rightarrow> string \<Rightarrow> int \<Rightarrow> (exn + unit) \<times> event list" where
  "make_video_closing cl w image_path audio_path output_path fps =
     (case try_body w image_path audio_path output_path fps of
        (r, v, t) \<Rightarrow>
          (let t' = (case r of
                       Inl e \<Rightarrow> t @ [Print (Error_creating e), Print_exc e]
                     | Inr u \<Rightarrow> t)
           in case finally_block cl v of
                (Some e', tc) \<Rightarrow> (Inl e', t' @ tc)
              | (None, tc) \<Rightarrow> (r, t' @ tc)))"

text \<open>
  \<open>make_video\<close> is the function in a library whose \<open>close()\<close> returns, as the spec has
  it (section 7 names loading, composition and writing as the places where the library
  fails). The statements about the \<open>try\<close> block and the handler are about these runs;
  the statement about the cleanup is about \<open>make_video_closing\<close>.
\<close>

definition make_video ::
  "world \<Rightarrow> string \<Rightarrow> string \<Rightarrow> string \<Rightarrow> int \<Rightarrow> (exn + unit) \<times> event list" where
  "make_video w image_path audio_path output_path fps =
     make_video_closing (\<lambda>h. None) w image_path audio_path output_path fps"

text \<open>\<open>fps=24\<close> in the signature, line 7: a call that gives no frame rate.\<close>

definition make_video_default ::
  "world \<Rightarrow> string \<Rightarrow> string \<Rightarrow> string \<Rightarrow> (exn + unit) \<times> event list" where
  "make_video_default w image_path audio_path output_path =
     make_video w image_path audio_path output_path 24"

text \<open>
  The command line, lines 80 to 89: three positional arguments and \<open>--fps\<close> with
  \<open>type=int, default=24\<close>. \<open>fps_flag\<close> is the integer given with \<open>--fps\<close>, if any.
\<close>

record cli_args =
  arg_image_path :: string
  arg_audio_path :: string
  arg_output_path :: string
  fps_flag :: "int option"

definition main :: "world \<Rightarrow> cli_args \<Rightarrow> (exn + unit) \<times> event list" where
  "main w a =
     make_video w (arg_image_path a) (arg_audio_path a) (arg_output_path a)
       (case fps_flag a of None \<Rightarrow> 24 | Some n \<Rightarrow> n)"

section \<open>Reading a trace\<close>

fun lib_call :: "event \<Rightarrow> call list" where
  "lib_call (Lib c r) = [c]"
| "lib_call _ = []"

definition lib_calls :: "event list \<Rightarrow> call list" where
  "lib_calls t = concat (map lib_call t)"

fun opened_by :: "event \<Rightarrow> handle list" where
  "opened_by (Lib c (Gave_handle h)) = [h]"
| "opened_by _ = []"

definition opened :: "event list \<Rightarrow> handle list" where
  "opened t = concat (map opened_by t)"

fun released_by :: "event \<Rightarrow> handle list" where
  "released_by (Lib (Close h) r) = [h]"
| "released_by _ = []"

definition released :: "event list \<Rightarrow> handle list" where
  "released t = concat (map released_by t)"

fun write_of :: "event \<Rightarrow> (handle \<times> write_args) list" where
  "write_of (Lib (Write_videofile h a) r) = [(h, a)]"
| "write_of _ = []"

definition writes :: "event list \<Rightarrow> (handle \<times> write_args) list" where
  "writes t = concat (map write_of t)"

fun exn_of :: "event \<Rightarrow> exn option" where
  "exn_of (Raise e) = Some e"
| "exn_of (Lib c (Raised e)) = Some e"
| "exn_of _ = None"

fun is_close :: "event \<Rightarrow> bool" where
  "is_close (Lib (Close h) r) = True"
| "is_close _ = False"

section \<open>Names used in the statements\<close>

text \<open>The part of a path up to and including its last separator (\<open>p[:i]\<close> in \<open>dirname\<close>).\<close>

definition head_of :: "string \<Rightarrow> string" where
  "head_of p = rev (dropWhile (\<lambda>x. x \<noteq> sep) (rev p))"

text \<open>
  The arguments that line 54 passes to \<open>write_videofile\<close>, the five lines printed first
  (lines 16 to 20) and the two things the handler prints (lines 66 and 67).
\<close>

definition encoder_args :: "string \<Rightarrow> int \<Rightarrow> write_args" where
  "encoder_args output_path fps =
     \<lparr>filename = output_path, fps_arg = fps, codec = ''libx264'', audio_codec = ''aac'',
      logger = ''bar'', temp_audiofile = join (dirname output_path) temp_name\<rparr>"

definition banner :: "string \<Rightarrow> string \<Rightarrow> string \<Rightarrow> int \<Rightarrow> event list" where
  "banner i a out fps = [Print Starting, Print (Image_line i), Print (Audio_line a),
     Print (Output_line out), Print (Fps_line fps)]"

definition handler :: "exn \<Rightarrow> event list" where
  "handler e = [Print (Error_creating e), Print_exc e]"

text \<open>
  A world for the examples: two input files exist, the audio lasts five seconds, and
  every library call works; \<open>with_audio\<close> returns a new clip.
\<close>

definition studio :: world where
  "studio =
     \<lparr>path_exists = (\<lambda>p. p = ''cover.png'' \<or> p = ''song.mp3''),
      open_audio = (\<lambda>p. Inr (Some 5)),
      open_image = (\<lambda>p d. None),
      attach_audio = (\<lambda>c a. Inr Combined_handle),
      write_video = (\<lambda>h a. None)\<rparr>"

text \<open>
  Variations of it: the audio has no length; \<open>with_audio\<close> returns the clip it was
  called on; \<open>with_audio\<close> raises; the encoder raises.
\<close>

definition silent_studio :: world where
  "silent_studio = studio\<lparr>open_audio := (\<lambda>p. Inr (Some 0))\<rparr>"

definition in_place_studio :: world where
  "in_place_studio = studio\<lparr>attach_audio := (\<lambda>c a. Inr c)\<rparr>"

definition no_attach_studio :: world where
  "no_attach_studio = studio\<lparr>attach_audio := (\<lambda>c a. Inl (LibraryError ''cannot attach''))\<rparr>"

definition full_disk_studio :: world where
  "full_disk_studio = studio\<lparr>write_video := (\<lambda>h a. Some (LibraryError ''disk full''))\<rparr>"




section \<open>The path functions\<close>

lemma head_take:
  "take (nat (rfind p c + 1)) p = rev (dropWhile (\<lambda>x. x \<noteq> c) (rev p))"
proof (cases "c \<in> set p")
  case True
  let ?k = "length (takeWhile (\<lambda>x. x \<noteq> c) (rev p))"
  have "dropWhile (\<lambda>x. x \<noteq> c) (rev p) \<noteq> []"
    using True by (simp add: dropWhile_eq_Nil_conv)
  then have "length (dropWhile (\<lambda>x. x \<noteq> c) (rev p)) > 0" by simp
  moreover have "?k + length (dropWhile (\<lambda>x. x \<noteq> c) (rev p)) = length p"
    by (metis length_append length_rev takeWhile_dropWhile_id)
  ultimately have k: "?k < length p" by linarith
  have "nat (rfind p c + 1) = length p - ?k"
    using True k by (simp add: rfind_def)
  moreover have "take (length p - ?k) p = rev (drop ?k (rev p))"
    by (simp add: rev_drop)
  moreover have "drop ?k (rev p) = dropWhile (\<lambda>x. x \<noteq> c) (rev p)"
    by (simp add: dropWhile_eq_drop)
  ultimately show ?thesis by simp
next
  case False
  then have "dropWhile (\<lambda>x. x \<noteq> c) (rev p) = []" by auto
  with False show ?thesis by (simp add: rfind_def)
qed

lemma dirname_head:
  "dirname p =
     (if head_of p \<noteq> [] \<and> head_of p \<noteq> replicate (length (head_of p)) sep
      then rstrip (head_of p) sep else head_of p)"
  unfolding dirname_def Let_def head_take head_of_def by (rule refl)

lemma not_all_sep:
  assumes "xs \<noteq> replicate (length xs) c"
  shows "dropWhile (\<lambda>x. x = c) (rev xs) \<noteq> []"
proof
  assume "dropWhile (\<lambda>x. x = c) (rev xs) = []"
  then have "\<forall>x\<in>set xs. x = c" by (simp add: dropWhile_eq_Nil_conv)
  then have "replicate (length xs) c = xs" by (rule replicate_length_same)
  with assms show False by simp
qed

lemma rstrip_shape:
  assumes "xs \<noteq> replicate (length xs) c"
  shows "rstrip xs c \<noteq> [] \<and> last (rstrip xs c) \<noteq> c"
proof -
  let ?d = "dropWhile (\<lambda>x. x = c) (rev xs)"
  have ne: "?d \<noteq> []" using assms by (rule not_all_sep)
  then have "hd ?d \<noteq> c" using hd_dropWhile [of "\<lambda>x. x = c" "rev xs"] by simp
  with ne show ?thesis by (simp add: rstrip_def last_rev)
qed

lemma dirname_shape:
  "dirname p = [] \<or> (dirname p \<noteq> [] \<and> dirname p = replicate (length (dirname p)) sep)
     \<or> (dirname p \<noteq> [] \<and> last (dirname p) \<noteq> sep)"
  using rstrip_shape [of "head_of p" sep]
  by (auto simp: dirname_head)

lemma head_of_append:
  "c \<notin> set n \<Longrightarrow> dropWhile (\<lambda>x. x \<noteq> c) (rev n @ ys) = dropWhile (\<lambda>x. x \<noteq> c) ys"
  by (rule dropWhile_append2) auto

lemma head_of_no_sep: "sep \<notin> set n \<Longrightarrow> head_of (d @ n) = head_of d"
  by (simp add: head_of_def head_of_append)

lemma dirname_no_sep: "sep \<notin> set n \<Longrightarrow> dirname n = []"
  using head_of_no_sep [of n "[]"] by (simp add: dirname_head head_of_def)

lemma startswith_no_sep: "sep \<notin> set n \<Longrightarrow> \<not> startswith n sep"
  by (cases n) (auto simp: startswith_def)

lemma join_empty: "sep \<notin> set n \<Longrightarrow> join [] n = n"
  by (simp add: join_def startswith_no_sep)

lemma endswith_last: "d \<noteq> [] \<Longrightarrow> endswith d c = (last d = c)"
  by (cases d rule: rev_cases) (auto simp: endswith_def)

lemma head_of_ends: "d \<noteq> [] \<Longrightarrow> last d = sep \<Longrightarrow> head_of d = d"
  by (cases d rule: rev_cases) (auto simp: head_of_def)

lemma dirname_join_seps:
  assumes n: "sep \<notin> set n" and d: "d \<noteq> []" "d = replicate (length d) sep"
  shows "dirname (join d n) = d"
proof -
  have l: "last d = sep" using d by (metis last_replicate length_0_conv)
  have j: "join d n = d @ n" using l d(1) n by (simp add: join_def startswith_no_sep endswith_last)
  have h: "head_of (d @ n) = d" using n d(1) l by (simp add: head_of_no_sep head_of_ends)
  show ?thesis unfolding j dirname_head h using d(2) by simp
qed

lemma dirname_join_name:
  assumes n: "sep \<notin> set n" and d: "d \<noteq> []" "last d \<noteq> sep"
  shows "dirname (join d n) = d"
proof -
  have j: "join d n = (d @ [sep]) @ n"
    using n d by (simp add: join_def startswith_no_sep endswith_last)
  have "head_of ((d @ [sep]) @ n) = head_of (d @ [sep])"
    using n by (rule head_of_no_sep)
  then have h: "head_of ((d @ [sep]) @ n) = d @ [sep]"
    by (simp add: head_of_ends)
  have ns: "d @ [sep] \<noteq> replicate (length (d @ [sep])) sep"
  proof
    assume "d @ [sep] = replicate (length (d @ [sep])) sep"
    then obtain k where k: "d @ [sep] = replicate k sep" by blast
    have "last d \<in> set (d @ [sep])" using d(1) by simp
    then have "last d \<in> set (replicate k sep)" unfolding k .
    then show False using d(2) by simp
  qed
  have r: "rstrip (d @ [sep]) sep = d"
    using d by (cases d rule: rev_cases) (auto simp: rstrip_def)
  show ?thesis unfolding j dirname_head h using ns r by simp
qed

lemma dirname_join_dirname:
  assumes "sep \<notin> set n"
  shows "dirname (join (dirname p) n) = dirname p"
  using dirname_shape [of p] dirname_no_sep [OF assms] join_empty [OF assms]
    dirname_join_seps [OF assms, of "dirname p"] dirname_join_name [OF assms, of "dirname p"]
  by metis

lemma temp_name_no_sep: "sep \<notin> set temp_name"
  by (simp add: temp_name_def sep_def)


lemma join_shape:
  assumes "sep \<notin> set n"
  shows "\<exists>dir. join d n = dir @ n \<and> (dir = [] \<or> last dir = sep)"
proof -
  consider "d = []" | "d \<noteq> []" "last d = sep" | "d \<noteq> []" "last d \<noteq> sep"
    by blast
  then show ?thesis
  proof cases
    case 1
    then have "join d n = [] @ n" using assms by (simp add: join_empty)
    then show ?thesis by blast
  next
    case 2
    then have "join d n = d @ n"
      using assms by (simp add: join_def startswith_no_sep endswith_last)
    with 2 show ?thesis by blast
  next
    case 3
    then have "join d n = (d @ [sep]) @ n"
      using assms by (simp add: join_def startswith_no_sep endswith_last)
    moreover have "last (d @ [sep]) = sep" by simp
    ultimately show ?thesis by blast
  qed
qed

lemma encoder_temp_shape:
  "\<exists>dir. temp_audiofile (encoder_args out fps) = dir @ temp_name \<and> (dir = [] \<or> last dir = sep)"
  using join_shape [OF temp_name_no_sep] by (simp add: encoder_args_def)

lemma encoder_temp_bare:
  "sep \<notin> set out \<Longrightarrow> temp_audiofile (encoder_args out fps) = temp_name"
  by (simp add: encoder_args_def dirname_no_sep join_empty temp_name_no_sep)

section \<open>The eight ways through \<open>make_video\<close>\<close>

lemma run_no_image:
  assumes "\<not> path_exists w i"
  shows "make_video w i a out fps =
    (Inl (FileNotFoundError (''Image file not found: '' @ i)),
     banner i a out fps @ [Raise (FileNotFoundError (''Image file not found: '' @ i))]
       @ handler (FileNotFoundError (''Image file not found: '' @ i)))"
  using assms
  by (simp add: make_video_def make_video_closing_def try_body_def finally_block_def close_if_set_def banner_def handler_def Let_def)

lemma run_no_audio:
  assumes "path_exists w i" "\<not> path_exists w a"
  shows "make_video w i a out fps =
    (Inl (FileNotFoundError (''Audio file not found: '' @ a)),
     banner i a out fps @ [Raise (FileNotFoundError (''Audio file not found: '' @ a))]
       @ handler (FileNotFoundError (''Audio file not found: '' @ a)))"
  using assms
  by (simp add: make_video_def make_video_closing_def try_body_def finally_block_def close_if_set_def banner_def handler_def Let_def)

lemma run_audio_fails:
  assumes "path_exists w i" "path_exists w a" "open_audio w a = Inl e"
  shows "make_video w i a out fps =
    (Inl e,
     banner i a out fps @ [Print Loading_audio, Lib (AudioFileClip_new a) (Raised e)]
       @ handler e)"
  using assms
  by (simp add: make_video_def make_video_closing_def try_body_def finally_block_def close_if_set_def banner_def handler_def Let_def)

lemma run_bad_duration:
  assumes "path_exists w i" "path_exists w a" "open_audio w a = Inr du"
    "du = None \<or> the du \<le> 0"
  shows "make_video w i a out fps =
    (Inl (ValueError invalid_duration_msg),
     banner i a out fps @ [Print Loading_audio,
       Lib (AudioFileClip_new a) (Gave_handle Audio_handle),
       Lib (Get_duration Audio_handle) (Gave_duration du),
       Raise (ValueError invalid_duration_msg)]
       @ handler (ValueError invalid_duration_msg) @ [Lib (Close Audio_handle) Done])"
  using assms
  by (auto simp add: make_video_def make_video_closing_def try_body_def finally_block_def close_if_set_def banner_def handler_def Let_def)

lemma run_image_fails:
  assumes "path_exists w i" "path_exists w a" "open_audio w a = Inr (Some d)" "0 < d"
    "open_image w i d = Some e"
  shows "make_video w i a out fps =
    (Inl e,
     banner i a out fps @ [Print Loading_audio,
       Lib (AudioFileClip_new a) (Gave_handle Audio_handle),
       Lib (Get_duration Audio_handle) (Gave_duration (Some d)),
       Print (Audio_duration d), Print Processing_image,
       Lib (ImageClip_new i d) (Raised e)]
       @ handler e @ [Lib (Close Audio_handle) Done])"
  using assms
  by (simp add: make_video_def make_video_closing_def try_body_def finally_block_def close_if_set_def banner_def handler_def Let_def)

lemma run_attach_fails:
  assumes "path_exists w i" "path_exists w a" "open_audio w a = Inr (Some d)" "0 < d"
    "open_image w i d = None" "attach_audio w Image_handle Audio_handle = Inl e"
  shows "make_video w i a out fps =
    (Inl e,
     banner i a out fps @ [Print Loading_audio,
       Lib (AudioFileClip_new a) (Gave_handle Audio_handle),
       Lib (Get_duration Audio_handle) (Gave_duration (Some d)),
       Print (Audio_duration d), Print Processing_image,
       Lib (ImageClip_new i d) (Gave_handle Image_handle), Print Combining,
       Lib (With_audio Image_handle Audio_handle) (Raised e)]
       @ handler e @ [Lib (Close Audio_handle) Done, Lib (Close Image_handle) Done])"
  using assms
  by (simp add: make_video_def make_video_closing_def try_body_def finally_block_def close_if_set_def banner_def handler_def Let_def)

lemma run_write_fails:
  assumes "path_exists w i" "path_exists w a" "open_audio w a = Inr (Some d)" "0 < d"
    "open_image w i d = None" "attach_audio w Image_handle Audio_handle = Inr h"
    "write_video w h (encoder_args out fps) = Some e"
  shows "make_video w i a out fps =
    (Inl e,
     banner i a out fps @ [Print Loading_audio,
       Lib (AudioFileClip_new a) (Gave_handle Audio_handle),
       Lib (Get_duration Audio_handle) (Gave_duration (Some d)),
       Print (Audio_duration d), Print Processing_image,
       Lib (ImageClip_new i d) (Gave_handle Image_handle), Print Combining,
       Lib (With_audio Image_handle Audio_handle) (Gave_handle h),
       Print (Temp_location (join (dirname out) temp_name)), Print (Writing out),
       Lib (Write_videofile h (encoder_args out fps)) (Raised e)]
       @ handler e
       @ [Lib (Close Audio_handle) Done, Lib (Close Image_handle) Done, Lib (Close h) Done])"
  using assms
  by (simp add: make_video_def make_video_closing_def try_body_def finally_block_def close_if_set_def banner_def handler_def Let_def
      encoder_args_def)

lemma run_succeeds:
  assumes "path_exists w i" "path_exists w a" "open_audio w a = Inr (Some d)" "0 < d"
    "open_image w i d = None" "attach_audio w Image_handle Audio_handle = Inr h"
    "write_video w h (encoder_args out fps) = None"
  shows "make_video w i a out fps =
    (Inr (),
     banner i a out fps @ [Print Loading_audio,
       Lib (AudioFileClip_new a) (Gave_handle Audio_handle),
       Lib (Get_duration Audio_handle) (Gave_duration (Some d)),
       Print (Audio_duration d), Print Processing_image,
       Lib (ImageClip_new i d) (Gave_handle Image_handle), Print Combining,
       Lib (With_audio Image_handle Audio_handle) (Gave_handle h),
       Print (Temp_location (join (dirname out) temp_name)), Print (Writing out),
       Lib (Write_videofile h (encoder_args out fps)) Done, Print (Created out)]
       @ [Lib (Close Audio_handle) Done, Lib (Close Image_handle) Done, Lib (Close h) Done])"
  using assms
  by (simp add: make_video_def make_video_closing_def try_body_def finally_block_def close_if_set_def banner_def handler_def Let_def
      encoder_args_def)

lemma make_video_paths:
  obtains
    (no_image) "\<not> path_exists w i"
  | (no_audio) "path_exists w i" "\<not> path_exists w a"
  | (audio_fails) e where "path_exists w i" "path_exists w a" "open_audio w a = Inl e"
  | (bad_duration) du where "path_exists w i" "path_exists w a" "open_audio w a = Inr du"
      "du = None \<or> the du \<le> 0"
  | (image_fails) d e where "path_exists w i" "path_exists w a" "open_audio w a = Inr (Some d)"
      "0 < d" "open_image w i d = Some e"
  | (attach_fails) d e where "path_exists w i" "path_exists w a"
      "open_audio w a = Inr (Some d)" "0 < d" "open_image w i d = None"
      "attach_audio w Image_handle Audio_handle = Inl e"
  | (write_fails) d h e where "path_exists w i" "path_exists w a"
      "open_audio w a = Inr (Some d)" "0 < d" "open_image w i d = None"
      "attach_audio w Image_handle Audio_handle = Inr h"
      "write_video w h (encoder_args out fps) = Some e"
  | (succeeds) d h where "path_exists w i" "path_exists w a"
      "open_audio w a = Inr (Some d)" "0 < d" "open_image w i d = None"
      "attach_audio w Image_handle Audio_handle = Inr h"
      "write_video w h (encoder_args out fps) = None"
proof (cases "path_exists w i \<and> path_exists w a")
  case False
  then show ?thesis using no_image no_audio by blast
next
  case ex: True
  show ?thesis
  proof (cases "open_audio w a")
    case (Inl e)
    then show ?thesis using ex audio_fails by blast
  next
    case (Inr du)
    show ?thesis
    proof (cases "du = None \<or> the du \<le> 0")
      case True
      then show ?thesis using ex Inr bad_duration by blast
    next
      case False
      then obtain d where d: "du = Some d" "0 < d" by (cases du) auto
      show ?thesis
      proof (cases "open_image w i d")
        case (Some e)
        then show ?thesis using ex Inr d image_fails by blast
      next
        case None
        show ?thesis
        proof (cases "attach_audio w Image_handle Audio_handle")
          case (Inl e)
          then show ?thesis using ex Inr d None attach_fails by blast
        next
          case h: (Inr h)
          show ?thesis
          proof (cases "write_video w h (encoder_args out fps)")
            case None': None
            then show ?thesis using ex Inr d None h succeeds by blast
          next
            case (Some e)
            then show ?thesis using ex Inr d None h write_fails by blast
          qed
        qed
      qed
    qed
  qed
qed

lemmas runs = run_no_image run_no_audio run_audio_fails run_bad_duration run_image_fails
  run_attach_fails run_write_fails run_succeeds

lemmas readers = lib_calls_def opened_def released_def writes_def banner_def handler_def

section \<open>Example runs\<close>

lemmas evaluate = make_video_def make_video_closing_def try_body_def finally_block_def close_if_set_def Let_def studio_def
  silent_studio_def in_place_studio_def no_attach_studio_def full_disk_studio_def
  lib_calls_def opened_def released_def writes_def encoder_args_def

lemma studio_succeeds:
  "fst (make_video studio ''cover.png'' ''song.mp3'' ''out/v.mp4'' 24) = Inr ()"
  by (simp add: evaluate)

lemma studio_writes:
  "writes (snd (make_video studio ''cover.png'' ''song.mp3'' ''out/v.mp4'' 24)) =
     [(Combined_handle, encoder_args ''out/v.mp4'' 24)]"
  by (simp add: evaluate)

lemma bare_writes:
  "writes (snd (make_video studio ''cover.png'' ''song.mp3'' ''v.mp4'' 24)) =
     [(Combined_handle, encoder_args ''v.mp4'' 24)]"
  by (simp add: evaluate)

lemma out_dir: "dirname ''out/v.mp4'' = ''out''"
  by (simp add: dirname_head head_of_def sep_def rstrip_def)

lemma out_temp: "join (dirname ''out/v.mp4'') temp_name = ''out/temp_processing_audio.mp4''"
  by (simp add: out_dir join_def startswith_def endswith_def temp_name_def sep_def)





section \<open>Missing inputs and invalid audio\<close>

text \<open>
  C1. When the image path or the audio path does not exist, \<open>make_video\<close> raises
  \<open>FileNotFoundError\<close> with a message that ends in the missing path (the image path
  when both are missing, since it is checked first); the trace has no call of the
  media library, so nothing is opened and nothing is written.
\<close>

theorem missing_input_raises:
  assumes "\<not> path_exists w image_path \<or> \<not> path_exists w audio_path"
  shows "fst (make_video w image_path audio_path output_path fps) =
           Inl (FileNotFoundError
                  (if \<not> path_exists w image_path
                   then ''Image file not found: '' @ image_path
                   else ''Audio file not found: '' @ audio_path))
       \<and> lib_calls (snd (make_video w image_path audio_path output_path fps)) = []
       \<and> writes (snd (make_video w image_path audio_path output_path fps)) = []"
  using assms
  by (cases rule: make_video_paths
        [where w = w and i = image_path and a = audio_path and out = output_path and fps = fps])
     (simp_all add: runs readers)

theorem missing_input_raises_witness:
  "\<not> path_exists studio ''lost.png''
   \<and> fst (make_video studio ''lost.png'' ''song.mp3'' ''out/v.mp4'' 24) =
        Inl (FileNotFoundError ''Image file not found: lost.png'')
   \<and> lib_calls (snd (make_video studio ''lost.png'' ''song.mp3'' ''out/v.mp4'' 24)) = []
   \<and> writes (snd (make_video studio ''lost.png'' ''song.mp3'' ''out/v.mp4'' 24)) = []"
proof -
  have h: "\<not> path_exists studio ''lost.png'' \<or> \<not> path_exists studio ''song.mp3''"
    by (simp add: studio_def)
  show ?thesis
    using h missing_input_raises [OF h, of "''out/v.mp4''" 24] by (simp add: studio_def)
qed



text \<open>
  The same run with a \<open>close()\<close> that may raise: the \<open>ValueError\<close> is raised and the
  library calls are the same three in every case; the caller sees the \<open>ValueError\<close>
  when closing the audio clip returns, and the exception of \<open>close()\<close> when it raises.
\<close>

lemma invalid_duration_any_close:
  assumes "path_exists w image_path" and "path_exists w audio_path"
    and "open_audio w audio_path = Inr duration"
    and "duration = None \<or> (\<exists>d. duration = Some d \<and> d \<le> 0)"
  shows "lib_calls (snd (make_video_closing cl w image_path audio_path output_path fps)) =
           [AudioFileClip_new audio_path, Get_duration Audio_handle, Close Audio_handle]
       \<and> opened (snd (make_video_closing cl w image_path audio_path output_path fps)) =
           [Audio_handle]
       \<and> writes (snd (make_video_closing cl w image_path audio_path output_path fps)) = []
       \<and> Raise (ValueError invalid_duration_msg)
           \<in> set (snd (make_video_closing cl w image_path audio_path output_path fps))
       \<and> fst (make_video_closing cl w image_path audio_path output_path fps) =
           (case cl Audio_handle of
              None \<Rightarrow> Inl (ValueError invalid_duration_msg)
            | Some e \<Rightarrow> Inl e)"
proof -
  have "duration = None \<or> the duration \<le> 0" using assms(4) by auto
  then show ?thesis
    using assms(1-3)
    by (auto simp add: make_video_closing_def try_body_def finally_block_def close_if_set_def
        Let_def readers split: option.splits)
qed

section \<open>Cleanup\<close>




text \<open>
  C6, as the claim states it, fails: when \<open>with_audio\<close> returns the clip it was called
  on (the case that the comment on line 76 names), \<open>image_clip\<close> and \<open>final_clip\<close>
  hold the same object and the \<open>finally\<close> block closes it twice.
\<close>

theorem double_release:
  "released (snd (make_video in_place_studio ''cover.png'' ''song.mp3'' ''out/v.mp4'' 24)) =
     [Audio_handle, Image_handle, Image_handle]
   \<and> \<not> distinct (released (snd (make_video in_place_studio ''cover.png'' ''song.mp3'' ''out/v.mp4'' 24)))"
  by (simp add: in_place_studio_def studio_def make_video_def make_video_closing_def try_body_def finally_block_def close_if_set_def
      Let_def released_def)

text \<open>
  C6, amended. When \<open>with_audio\<close> does not return one of the two clips the run holds
  already (the image clip it is called on, the audio clip it is given), no handle is
  released more than once. In every world, when the audio handle was opened and the
  run never got a combined clip, the audio handle is released exactly once and no
  handle is released twice.
\<close>

theorem released_once:
  "(attach_audio w Image_handle Audio_handle \<noteq> Inr Image_handle
      \<and> attach_audio w Image_handle Audio_handle \<noteq> Inr Audio_handle
    \<longrightarrow> distinct (released (snd (make_video w image_path audio_path output_path fps))))
   \<and> (Audio_handle \<in> set (opened (snd (make_video w image_path audio_path output_path fps)))
      \<and> (\<forall>h. Lib (With_audio Image_handle Audio_handle) (Gave_handle h)
              \<notin> set (snd (make_video w image_path audio_path output_path fps)))
    \<longrightarrow> count_list (released (snd (make_video w image_path audio_path output_path fps)))
          Audio_handle = 1
        \<and> distinct (released (snd (make_video w image_path audio_path output_path fps))))"
  by (cases rule: make_video_paths
        [where w = w and i = image_path and a = audio_path and out = output_path and fps = fps])
     (auto simp add: runs readers)

theorem released_once_witness:
  "distinct (released (snd (make_video studio ''cover.png'' ''song.mp3'' ''out/v.mp4'' 24)))
   \<and> Audio_handle
       \<in> set (opened (snd (make_video no_attach_studio ''cover.png'' ''song.mp3'' ''out/v.mp4'' 24)))
   \<and> count_list
        (released (snd (make_video no_attach_studio ''cover.png'' ''song.mp3'' ''out/v.mp4'' 24)))
        Audio_handle = 1"
proof -
  have a: "attach_audio studio Image_handle Audio_handle \<noteq> Inr Image_handle
      \<and> attach_audio studio Image_handle Audio_handle \<noteq> Inr Audio_handle"
    by (simp add: studio_def)
  have b: "Audio_handle
       \<in> set (opened (snd (make_video no_attach_studio ''cover.png'' ''song.mp3'' ''out/v.mp4'' 24)))
     \<and> (\<forall>h. Lib (With_audio Image_handle Audio_handle) (Gave_handle h)
            \<notin> set (snd (make_video no_attach_studio ''cover.png'' ''song.mp3'' ''out/v.mp4'' 24)))"
    by (simp add: evaluate)
  have c: "distinct (released (snd (make_video studio ''cover.png'' ''song.mp3'' ''out/v.mp4'' 24)))"
    using a released_once [of studio "''cover.png''" "''song.mp3''" "''out/v.mp4''" 24] by blast
  have d: "count_list
        (released (snd (make_video no_attach_studio ''cover.png'' ''song.mp3'' ''out/v.mp4'' 24)))
        Audio_handle = 1"
    using b released_once [of no_attach_studio "''cover.png''" "''song.mp3''" "''out/v.mp4''" 24]
    by blast
  show ?thesis using b c d by blast
qed

section \<open>The composed clip and the encoder call\<close>

text \<open>
  C4. In every run that returns normally, the audio clip opened with a duration
  \<open>d > 0\<close>, the one image clip of the run was built from the image path with
  \<open>duration=d\<close>, \<open>with_audio\<close> was called on that image clip with the audio clip, and
  the clip it returned is the one written.
\<close>

theorem clip_built_for_audio_duration:
  assumes "fst (make_video w image_path audio_path output_path fps) = Inr ()"
  shows "\<exists>d h. open_audio w audio_path = Inr (Some d) \<and> 0 < d
     \<and> lib_calls (snd (make_video w image_path audio_path output_path fps)) =
         [AudioFileClip_new audio_path, Get_duration Audio_handle,
          ImageClip_new image_path d, With_audio Image_handle Audio_handle,
          Write_videofile h (encoder_args output_path fps),
          Close Audio_handle, Close Image_handle, Close h]
     \<and> Lib (Get_duration Audio_handle) (Gave_duration (Some d))
           \<in> set (snd (make_video w image_path audio_path output_path fps))
     \<and> Lib (ImageClip_new image_path d) (Gave_handle Image_handle)
           \<in> set (snd (make_video w image_path audio_path output_path fps))
     \<and> Lib (With_audio Image_handle Audio_handle) (Gave_handle h)
           \<in> set (snd (make_video w image_path audio_path output_path fps))"
  using assms
  by (cases rule: make_video_paths
        [where w = w and i = image_path and a = audio_path and out = output_path and fps = fps])
     (simp_all add: runs readers)

theorem clip_built_for_audio_duration_witness:
  "fst (make_video studio ''cover.png'' ''song.mp3'' ''out/v.mp4'' 24) = Inr ()
   \<and> (\<exists>d h. open_audio studio ''song.mp3'' = Inr (Some d) \<and> 0 < d
     \<and> lib_calls (snd (make_video studio ''cover.png'' ''song.mp3'' ''out/v.mp4'' 24)) =
         [AudioFileClip_new ''song.mp3'', Get_duration Audio_handle,
          ImageClip_new ''cover.png'' d, With_audio Image_handle Audio_handle,
          Write_videofile h (encoder_args ''out/v.mp4'' 24),
          Close Audio_handle, Close Image_handle, Close h]
     \<and> Lib (Get_duration Audio_handle) (Gave_duration (Some d))
           \<in> set (snd (make_video studio ''cover.png'' ''song.mp3'' ''out/v.mp4'' 24))
     \<and> Lib (ImageClip_new ''cover.png'' d) (Gave_handle Image_handle)
           \<in> set (snd (make_video studio ''cover.png'' ''song.mp3'' ''out/v.mp4'' 24))
     \<and> Lib (With_audio Image_handle Audio_handle) (Gave_handle h)
           \<in> set (snd (make_video studio ''cover.png'' ''song.mp3'' ''out/v.mp4'' 24)))"
  using studio_succeeds clip_built_for_audio_duration [OF studio_succeeds] by blast




text \<open>
  C8. The temporary path \<open>os.path.join(os.path.dirname(output_path), ...)\<close> has the
  same directory part as the output path, and every call of the encoder gets that
  path as \<open>temp_audiofile\<close>, next to the \<open>filename\<close> it is given.
\<close>

theorem temp_file_beside_output:
  "dirname (join (dirname output_path) temp_name) = dirname output_path
   \<and> (\<forall>(h, args) \<in> set (writes (snd (make_video w image_path audio_path output_path fps))).
        temp_audiofile args = join (dirname output_path) temp_name
        \<and> dirname (temp_audiofile args) = dirname (filename args))"
  by (cases rule: make_video_paths
        [where w = w and i = image_path and a = audio_path and out = output_path and fps = fps])
     (simp_all add: runs readers encoder_args_def dirname_join_dirname temp_name_no_sep)

theorem temp_file_beside_output_witness:
  "writes (snd (make_video studio ''cover.png'' ''song.mp3'' ''out/v.mp4'' 24)) =
     [(Combined_handle, encoder_args ''out/v.mp4'' 24)]
   \<and> temp_audiofile (encoder_args ''out/v.mp4'' 24) = ''out/temp_processing_audio.mp4''
   \<and> dirname ''out/temp_processing_audio.mp4'' = ''out''
   \<and> dirname ''out/v.mp4'' = ''out''"
  using temp_file_beside_output [of "''out/v.mp4''" studio "''cover.png''" "''song.mp3''" 24]
    studio_writes out_temp out_dir
  by (simp add: encoder_args_def)

text \<open>
  C9. The frame rate is 24 when the caller gives none (the default of the signature and
  the default of \<open>--fps\<close>). It is never checked: if the run reaches the encoder for one
  frame rate, it reaches it for every integer, zero and negative ones too, and the
  encoder is called once with exactly that integer.
\<close>

theorem fps_not_checked:
  "make_video_default w image_path audio_path output_path =
     make_video w image_path audio_path output_path 24
   \<and> main w \<lparr>arg_image_path = image_path, arg_audio_path = audio_path,
              arg_output_path = output_path, fps_flag = None\<rparr> =
     make_video w image_path audio_path output_path 24
   \<and> main w \<lparr>arg_image_path = image_path, arg_audio_path = audio_path,
              arg_output_path = output_path, fps_flag = Some fps\<rparr> =
     make_video w image_path audio_path output_path fps
   \<and> (writes (snd (make_video w image_path audio_path output_path fps0)) \<noteq> [] \<longrightarrow>
       (\<exists>h args. writes (snd (make_video w image_path audio_path output_path fps)) = [(h, args)]
          \<and> fps_arg args = fps))"
  apply (simp add: make_video_default_def main_def)
  apply (cases rule: make_video_paths
        [where w = w and i = image_path and a = audio_path and out = output_path and fps = fps];
      cases rule: make_video_paths
        [where w = w and i = image_path and a = audio_path and out = output_path and fps = fps0])
  apply (simp_all add: runs readers encoder_args_def)
  done

theorem fps_not_checked_witness:
  "writes (snd (make_video studio ''cover.png'' ''song.mp3'' ''out/v.mp4'' 24)) \<noteq> []
   \<and> (\<exists>h args. writes (snd (make_video studio ''cover.png'' ''song.mp3'' ''out/v.mp4'' (- 3))) =
          [(h, args)] \<and> fps_arg args = - 3)
   \<and> (\<exists>h args. writes (snd (make_video studio ''cover.png'' ''song.mp3'' ''out/v.mp4'' 0)) =
          [(h, args)] \<and> fps_arg args = 0)"
proof -
  have h: "writes (snd (make_video studio ''cover.png'' ''song.mp3'' ''out/v.mp4'' 24)) \<noteq> []"
    by (simp add: studio_writes)
  show ?thesis
    using h fps_not_checked [of studio "''cover.png''" "''song.mp3''" "''out/v.mp4''" "- 3" 24]
      fps_not_checked [of studio "''cover.png''" "''song.mp3''" "''out/v.mp4''" 0 24]
    by blast
qed

text \<open>
  C10. In every call of the encoder the temporary path ends in the fixed name
  \<open>temp_processing_audio.mp4\<close>, after nothing or after a directory part that ends in
  a separator; when the output path has no separator, the temporary path is that bare
  name, relative to the current directory.
\<close>

theorem temp_name_fixed:
  "\<forall>(h, args) \<in> set (writes (snd (make_video w image_path audio_path output_path fps))).
       (\<exists>dir. temp_audiofile args = dir @ ''temp_processing_audio.mp4''
           \<and> (dir = [] \<or> last dir = CHR ''/''))
     \<and> (CHR ''/'' \<notin> set output_path \<longrightarrow> temp_audiofile args = ''temp_processing_audio.mp4'')"
  using encoder_temp_shape [of output_path fps, unfolded temp_name_def sep_def]
    encoder_temp_bare [of output_path fps, unfolded temp_name_def sep_def]
  by (cases rule: make_video_paths
        [where w = w and i = image_path and a = audio_path and out = output_path and fps = fps])
     (simp_all add: runs readers)

theorem temp_name_fixed_witness:
  "CHR ''/'' \<notin> set ''v.mp4''
   \<and> writes (snd (make_video studio ''cover.png'' ''song.mp3'' ''v.mp4'' 24)) =
       [(Combined_handle, encoder_args ''v.mp4'' 24)]
   \<and> temp_audiofile (encoder_args ''v.mp4'' 24) = ''temp_processing_audio.mp4''"
proof -
  have h: "CHR ''/'' \<notin> set ''v.mp4''" by simp
  show ?thesis
    using h bare_writes temp_name_fixed [of studio "''cover.png''" "''song.mp3''" "''v.mp4''" 24]
    by simp
qed

section \<open>Failures\<close>



text \<open>Conversely, a run that fails has an event that raised the exception it ends with.\<close>

lemma failure_is_raised:
  assumes "fst (make_video w image_path audio_path output_path fps) = Inl e"
  shows "\<exists>ev \<in> set (snd (make_video w image_path audio_path output_path fps)). exn_of ev = Some e"
  using assms
  by (cases rule: make_video_paths
        [where w = w and i = image_path and a = audio_path and out = output_path and fps = fps])
     (auto simp add: runs readers)

text \<open>
  With a \<open>close()\<close> that may raise, an exception of the \<open>try\<close> block is still followed
  by the error message and the traceback and then only by releases; it is the
  exception the caller sees when no \<open>close()\<close> raises.
\<close>

lemma failure_logged_any_close:
  assumes "ev \<in> set (snd (make_video_closing cl w image_path audio_path output_path fps))"
    and "exn_of ev = Some e" and "\<not> is_close ev"
  shows "take 3 (dropWhile (\<lambda>x. exn_of x = None)
             (snd (make_video_closing cl w image_path audio_path output_path fps))) =
           [ev, Print (Error_creating e), Print_exc e]
     \<and> list_all is_close (drop 3 (dropWhile (\<lambda>x. exn_of x = None)
             (snd (make_video_closing cl w image_path audio_path output_path fps))))
     \<and> ((\<forall>h e'. Lib (Close h) (Raised e')
             \<notin> set (snd (make_video_closing cl w image_path audio_path output_path fps)))
        \<longrightarrow> fst (make_video_closing cl w image_path audio_path output_path fps) = Inl e)"
  using assms
  by (cases rule: make_video_paths
        [where w = w and i = image_path and a = audio_path and out = output_path and fps = fps])
     (auto simp add: make_video_closing_def try_body_def finally_block_def close_if_set_def
        Let_def encoder_args_def split: option.splits)

end
